theory Spec2Isabelle
  imports Main
begin

section \<open>The SPDX presenter of syft: data model\<close>

text \<open>
  The development embeds \<^verbatim>\<open>internal/presenter/packages/spdx_presenter.go\<close>.
  Go strings are \<^typ>\<open>string\<close>, a Go map is a HOL map, a \<^verbatim>\<open>nil\<close> slice
  is the empty list and a \<^verbatim>\<open>nil\<close> map is the empty map.
\<close>

subsection \<open>Input: packages of the catalog and the source metadata\<close>

text \<open>
  \<^verbatim>\<open>p.Metadata\<close> is a Go interface value. The presenter only asks whether its
  dynamic type implements \<^verbatim>\<open>pkg.FileOwner\<close> (line 304) and, if so, calls
  \<^verbatim>\<open>OwnedFiles()\<close>: a metadata value is therefore either no file owner, or
  a file owner together with the slice of paths that \<^verbatim>\<open>OwnedFiles()\<close> returns.
\<close>

datatype pkg_Metadata = NotFileOwner | FileOwner "string list"

text \<open>
  The fields of \<^verbatim>\<open>pkg.Package\<close> that the presenter reads. \<^verbatim>\<open>pkg.Type\<close> is a
  string type, so that \<^verbatim>\<open>%+v\<close> prints the string itself.
\<close>

record Package =
  Name :: string
  Version :: string
  Type :: string
  Licenses :: "string list"
  Metadata :: pkg_Metadata

record ImageMetadata =
  UserInput :: string

record source_Metadata =
  ImageMetadata :: ImageMetadata

text \<open>
  \<^verbatim>\<open>pkg.Catalog\<close> is only used through \<^verbatim>\<open>Enumerate()\<close>, a channel that
  delivers finitely many packages: the catalog is the list of the packages in the order
  in which the channel delivers them.
\<close>

record SPDXPresenter =
  catalog :: "Package list"
  srcMetadata :: source_Metadata

subsection \<open>Output: the SPDX 2.2 document of tools-golang\<close>

type_synonym ElementID = string

typedecl ArtifactOfProject2_2
typedecl Snippet2_2
typedecl PackageExternalReference2_2
typedecl ExternalDocumentRef2_2

record File2_2 =
  FileName :: string
  FileSPDXIdentifier :: ElementID
  FileType :: "string list"
  FileChecksumSHA1 :: string
  FileChecksumSHA256 :: string
  FileChecksumMD5 :: string
  LicenseConcluded :: string
  LicenseInfoInFile :: "string list"
  LicenseComments :: string
  FileCopyrightText :: string
  ArtifactOfProjects :: "ArtifactOfProject2_2 list"
  FileComment :: string
  FileNotice :: string
  FileContributor :: "string list"
  FileAttributionTexts :: "string list"
  FileDependencies :: "string list"
  Snippets :: "ElementID \<rightharpoonup> Snippet2_2"

record Package2_2 =
  IsUnpackaged :: bool
  PackageName :: string
  PackageSPDXIdentifier :: ElementID
  PackageVersion :: string
  PackageFileName :: string
  PackageSupplierPerson :: string
  PackageSupplierOrganization :: string
  PackageSupplierNOASSERTION :: bool
  PackageOriginatorPerson :: string
  PackageOriginatorOrganization :: string
  PackageOriginatorNOASSERTION :: bool
  PackageDownloadLocation :: string
  FilesAnalyzed :: bool
  IsFilesAnalyzedTagPresent :: bool
  PackageVerificationCode :: string
  PackageVerificationCodeExcludedFile :: string
  PackageChecksumSHA1 :: string
  PackageChecksumSHA256 :: string
  PackageChecksumMD5 :: string
  PackageHomePage :: string
  PackageSourceInfo :: string
  PackageLicenseConcluded :: string
  PackageLicenseInfoFromFiles :: "string list"
  PackageLicenseDeclared :: string
  PackageLicenseComments :: string
  PackageCopyrightText :: string
  PackageSummary :: string
  PackageDescription :: string
  PackageComment :: string
  PackageExternalReferences :: "PackageExternalReference2_2 list"
  PackageAttributionTexts :: "string list"
  Files :: "ElementID \<rightharpoonup> File2_2"

record CreationInfo2_2 =
  SPDXVersion :: string
  DataLicense :: string
  SPDXIdentifier :: ElementID
  DocumentName :: string
  DocumentNamespace :: string
  ExternalDocumentReferences :: "ExternalDocumentRef2_2 list"
  LicenseListVersion :: string
  CreatorPersons :: "string list"
  CreatorOrganizations :: "string list"
  CreatorTools :: "string list"
  Created :: string
  CreatorComment :: string
  DocumentComment :: string

text \<open>
  \<^verbatim>\<open>Present\<close> sets two fields of \<^verbatim>\<open>spdx.Document2_2\<close>; the others keep
  their zero value in every document it builds and are left out.
\<close>

record Document2_2 =
  CreationInfo :: CreationInfo2_2
  Packages :: "ElementID \<rightharpoonup> Package2_2"

subsection \<open>The collaborators outside the repository\<close>

text \<open>The one field of go-spdx's \<^verbatim>\<open>LicenseInfo\<close> that is read (line 138).\<close>

record LicenseInfo =
  ID :: string

text \<open>
  What the presenter calls and does not define, taken as parameters:
  \<^item> \<^verbatim>\<open>internal.ApplicationName\<close> and \<^verbatim>\<open>version.FromBuild().Version\<close>;
  \<^item> \<^verbatim>\<open>time.Now().Format(time.RFC3339)\<close>, the clock reading as text;
  \<^item> \<^verbatim>\<open>spdxLicense.License\<close>, which returns a license or an error
    (\<open>Inl\<close> the error);
  \<^item> \<^verbatim>\<open>tvsaver.Save2_2\<close>, which writes the document to the writer (a state of
    type \<open>'w\<close>) and returns an error or \<^verbatim>\<open>nil\<close> (\<open>None\<close>).
\<close>

record ('le, 'se, 'w) externals =
  ApplicationName :: string
  FromBuild_Version :: string
  Now_RFC3339 :: string
  License :: "string \<Rightarrow> 'le + LicenseInfo"
  Save2_2 :: "Document2_2 \<Rightarrow> 'w \<Rightarrow> 'se option \<times> 'w"

text \<open>
  The one log call of the file, \<^verbatim>\<open>log.Warnf\<close> at line 135, with the two arguments
  of its format string. The log is the list of the entries written, oldest first.
\<close>

datatype 'le LogEntry = Warnf Package 'le

section \<open>The presenter\<close>

subsection \<open>File records (\<^verbatim>\<open>packageFiles\<close>, lines 301 to 383)\<close>

text \<open>The struct literal of lines 309 to 378, for the path \<open>f\<close> with \<open>id = ElementID(f)\<close>.\<close>

definition File2_2_literal :: "string \<Rightarrow> ElementID \<Rightarrow> File2_2" where
  "File2_2_literal f id' = \<lparr>
     FileName = f,
     FileSPDXIdentifier = id',
     FileType = [],
     FileChecksumSHA1 = '''',
     FileChecksumSHA256 = '''',
     FileChecksumMD5 = '''',
     LicenseConcluded = ''NOASSERTION'',
     LicenseInfoInFile = [''NOASSERTION''],
     LicenseComments = '''',
     FileCopyrightText = ''NOASSERTION'',
     ArtifactOfProjects = [],
     FileComment = '''',
     FileNotice = '''',
     FileContributor = [],
     FileAttributionTexts = [],
     FileDependencies = [],
     Snippets = Map.empty \<rparr>"

text \<open>The loop of lines 306 to 379 over the owned files, updating the map \<open>files\<close>.\<close>

fun packageFiles_loop ::
  "string list \<Rightarrow> (ElementID \<rightharpoonup> File2_2) \<Rightarrow> (ElementID \<rightharpoonup> File2_2)" where
  "packageFiles_loop [] files = files"
| "packageFiles_loop (f # fs) files =
     (let id' = f in packageFiles_loop fs (files(id' \<mapsto> File2_2_literal f id')))"

definition packageFiles :: "Package \<Rightarrow> bool \<times> (ElementID \<rightharpoonup> File2_2)" where
  "packageFiles p =
     (let filesAnalyzed = False; files = Map.empty in
      case Metadata p of
        FileOwner ownedFiles \<Rightarrow> (True, packageFiles_loop ownedFiles files)
      | NotFileOwner \<Rightarrow> (filesAnalyzed, files))"

subsection \<open>Package records (\<^verbatim>\<open>packages\<close>, lines 115 to 299)\<close>

text \<open>Line 120: \<^verbatim>\<open>fmt.Sprintf("Package-%+v-%s", p.Type, p.Name)\<close>.\<close>

definition package_id :: "Package \<Rightarrow> ElementID" where
  "package_id p = ''Package-'' @ Type p @ ''-'' @ Name p"

text \<open>
  Lines 130 to 140: the declared license of a package and the log entries written while
  finding it. \<^verbatim>\<open>p.Licenses[0]\<close> is read under the guard \<^verbatim>\<open>len(p.Licenses) > 0\<close>.
\<close>

definition package_license ::
  "('le, 'se, 'w) externals \<Rightarrow> Package \<Rightarrow> string \<times> 'le LogEntry list" where
  "package_license ext p =
     (if length (Licenses p) > 0 then
        (case License ext (Licenses p ! 0) of
           Inl err \<Rightarrow> (''NOASSERTION'', [Warnf p err])
         | Inr licenseInfo \<Rightarrow> (ID licenseInfo, []))
      else (''NONE'', []))"

text \<open>The struct literal of lines 144 to 296.\<close>

definition Package2_2_literal ::
  "Package \<Rightarrow> ElementID \<Rightarrow> string \<Rightarrow> bool \<Rightarrow> (ElementID \<rightharpoonup> File2_2) \<Rightarrow> Package2_2" where
  "Package2_2_literal p id' license filesAnalyzed files = \<lparr>
     IsUnpackaged = False,
     PackageName = Name p,
     PackageSPDXIdentifier = id',
     PackageVersion = Version p,
     PackageFileName = '''',
     PackageSupplierPerson = '''',
     PackageSupplierOrganization = '''',
     PackageSupplierNOASSERTION = False,
     PackageOriginatorPerson = '''',
     PackageOriginatorOrganization = '''',
     PackageOriginatorNOASSERTION = False,
     PackageDownloadLocation = ''NOASSERTION'',
     FilesAnalyzed = filesAnalyzed,
     IsFilesAnalyzedTagPresent = True,
     PackageVerificationCode = '''',
     PackageVerificationCodeExcludedFile = '''',
     PackageChecksumSHA1 = '''',
     PackageChecksumSHA256 = '''',
     PackageChecksumMD5 = '''',
     PackageHomePage = '''',
     PackageSourceInfo = '''',
     PackageLicenseConcluded = ''NOASSERTION'',
     PackageLicenseInfoFromFiles = [],
     PackageLicenseDeclared = license,
     PackageLicenseComments = '''',
     PackageCopyrightText = ''NOASSERTION'',
     PackageSummary = '''',
     PackageDescription = '''',
     PackageComment = '''',
     PackageExternalReferences = [],
     PackageAttributionTexts = [],
     Files = files \<rparr>"

text \<open>
  One iteration of the loop of line 118, for the package \<open>p\<close>: the record that is
  stored at \<^verbatim>\<open>results[id]\<close> (line 144).
\<close>

definition package_record :: "('le, 'se, 'w) externals \<Rightarrow> Package \<Rightarrow> Package2_2" where
  "package_record ext p =
     (let id' = package_id p;
          license = fst (package_license ext p);
          (filesAnalyzed, files) = packageFiles p
      in Package2_2_literal p id' license filesAnalyzed files)"

text \<open>The loop itself: the state is the map \<open>results\<close> and the log.\<close>

fun packages_loop ::
  "('le, 'se, 'w) externals \<Rightarrow> Package list \<Rightarrow>
   (ElementID \<rightharpoonup> Package2_2) \<times> 'le LogEntry list \<Rightarrow>
   (ElementID \<rightharpoonup> Package2_2) \<times> 'le LogEntry list" where
  "packages_loop ext [] st = st"
| "packages_loop ext (p # ps) (results, lg) =
     packages_loop ext ps
       (results(package_id p \<mapsto> package_record ext p), lg @ snd (package_license ext p))"

definition packages ::
  "('le, 'se, 'w) externals \<Rightarrow> SPDXPresenter \<Rightarrow>
   (ElementID \<rightharpoonup> Package2_2) \<times> 'le LogEntry list" where
  "packages ext pres = packages_loop ext (catalog pres) (Map.empty, [])"

subsection \<open>The document and its presentation (\<^verbatim>\<open>Present\<close>, lines 36 to 112)\<close>

text \<open>
  Lines 37 to 109: the document handed to the encoder, and the log written while it is
  built.
\<close>

definition Present_doc ::
  "('le, 'se, 'w) externals \<Rightarrow> SPDXPresenter \<Rightarrow> Document2_2 \<times> 'le LogEntry list" where
  "Present_doc ext pres =
     (let (pkgs, lg) = packages ext pres in
      (\<lparr> CreationInfo = \<lparr>
            SPDXVersion = ''SPDX-2.2'',
            DataLicense = ''CC0-1.0'',
            SPDXIdentifier = ''DOCUMENT'',
            DocumentName = UserInput (ImageMetadata (srcMetadata pres)),
            DocumentNamespace =
              ''https://anchore.com/syft/image/'' @ UserInput (ImageMetadata (srcMetadata pres)),
            ExternalDocumentReferences = [],
            LicenseListVersion = '''',
            CreatorPersons = [],
            CreatorOrganizations = [''Anchore, Inc''],
            CreatorTools = [ApplicationName ext @ ''-'' @ FromBuild_Version ext],
            Created = Now_RFC3339 ext,
            CreatorComment = '''',
            DocumentComment = '''' \<rparr>,
          Packages = pkgs \<rparr>, lg))"

text \<open>
  Line 111: the result of \<^verbatim>\<open>Present\<close> is the result of the encoder. The model
  returns it with the writer after the call and the log.
\<close>

definition Present ::
  "('le, 'se, 'w) externals \<Rightarrow> SPDXPresenter \<Rightarrow> 'w \<Rightarrow> 'se option \<times> 'w \<times> 'le LogEntry list" where
  "Present ext pres output =
     (let (doc, lg) = Present_doc ext pres;
          (err, output') = Save2_2 ext doc output
      in (err, output', lg))"

section \<open>The specified classification and example inputs\<close>

text \<open>
  The declared license in the words of the specification: \<open>NONE\<close> for an empty license
  list; otherwise only the first license string is looked up, and the result is the
  canonical identifier when the lookup resolves it and \<open>NOASSERTION\<close> when it fails.
\<close>

definition classification :: "(string \<Rightarrow> 'le + LicenseInfo) \<Rightarrow> string list \<Rightarrow> string" where
  "classification lookup ls =
     (case ls of
        [] \<Rightarrow> ''NONE''
      | l # _ \<Rightarrow> (case lookup l of Inr info \<Rightarrow> ID info | Inl _ \<Rightarrow> ''NOASSERTION''))"

text \<open>
  The log entries in the words of the specification: one warning for each package, in
  the order of enumeration, whose first license string is not resolved.
\<close>

definition warnings :: "(string \<Rightarrow> 'le + LicenseInfo) \<Rightarrow> Package list \<Rightarrow> 'le LogEntry list" where
  "warnings lookup ps =
     concat (map (\<lambda>p. case Licenses p of
                         [] \<Rightarrow> []
                       | l # _ \<Rightarrow> (case lookup l of Inr _ \<Rightarrow> [] | Inl e \<Rightarrow> [Warnf p e])) ps)"

text \<open>
  The example scenarios of the specification as concrete inputs. The lookup knows the
  license \<open>MIT\<close> only; the writer keeps the documents it was given.
\<close>

definition example_License :: "string \<Rightarrow> string + LicenseInfo" where
  "example_License s =
     (if s = ''MIT'' then Inr \<lparr> ID = ''MIT'' \<rparr> else Inl ''unrecognized license'')"

definition example_externals :: "(string, string, Document2_2 list) externals" where
  "example_externals = \<lparr>
     ApplicationName = ''syft'',
     FromBuild_Version = ''0.13.0'',
     Now_RFC3339 = ''2021-02-01T12:00:00Z'',
     License = example_License,
     Save2_2 = (\<lambda>doc w. (None, w @ [doc])) \<rparr>"

definition unwritable_externals :: "(string, string, Document2_2 list) externals" where
  "unwritable_externals =
     example_externals \<lparr> Save2_2 := (\<lambda>doc w. (Some ''sink unwritable'', w)) \<rparr>"

definition curl :: Package where
  "curl = \<lparr> Name = ''curl'', Version = ''7.68'', Type = ''deb'',
            Licenses = [], Metadata = NotFileOwner \<rparr>"

definition curl_newer :: Package where
  "curl_newer = \<lparr> Name = ''curl'', Version = ''7.70'', Type = ''deb'',
                  Licenses = [''MIT''], Metadata = NotFileOwner \<rparr>"

definition openssl :: Package where
  "openssl = \<lparr> Name = ''openssl'', Version = ''1.1.1'', Type = ''deb'',
               Licenses = [''MIT'', ''totally-bogus-license''], Metadata = NotFileOwner \<rparr>"

definition wget :: Package where
  "wget = \<lparr> Name = ''wget'', Version = ''1.20'', Type = ''deb'',
            Licenses = [''totally-bogus-license''], Metadata = NotFileOwner \<rparr>"

definition libcurl :: Package where
  "libcurl = \<lparr> Name = ''libcurl'', Version = ''7.68'', Type = ''deb'',
               Licenses = [],
               Metadata = FileOwner [''/usr/bin/curl'', ''/etc/curl.conf'', ''/usr/bin/curl''] \<rparr>"

definition example_presenter :: SPDXPresenter where
  "example_presenter = \<lparr>
     catalog = [curl, openssl, wget, libcurl, curl_newer],
     srcMetadata = \<lparr> ImageMetadata = \<lparr> UserInput = ''alpine:latest'' \<rparr> \<rparr> \<rparr>"

section \<open>Facts about the loops\<close>

lemma find_app:
  "find P (xs @ ys) = (case find P xs of None \<Rightarrow> find P ys | Some x \<Rightarrow> Some x)"
  by (induction xs) simp_all

lemma find_rev_Some_set:
  "find P (rev xs) = Some x \<Longrightarrow> x \<in> set xs \<and> P x"
  by (metis find_Some_iff nth_mem set_rev)

lemma find_rev_last:
  "P x \<Longrightarrow> \<forall>y\<in>set ys. \<not> P y \<Longrightarrow> find P (rev (xs @ x # ys)) = Some x"
  by (induction ys rule: rev_induct) (auto simp: find_app split: option.splits)

text \<open>A path of the list gets its record, whatever the map held before; other keys keep theirs.\<close>

lemma packageFiles_loop_apply:
  "packageFiles_loop fs files k = (if k \<in> set fs then Some (File2_2_literal k k) else files k)"
  by (induction fs arbitrary: files) (auto simp: Let_def)

text \<open>An identifier holds the record of the last package enumerated with it.\<close>

lemma packages_loop_results:
  "fst (packages_loop ext ps (results, lg)) i =
     (case find (\<lambda>p. package_id p = i) (rev ps) of
        None \<Rightarrow> results i
      | Some p \<Rightarrow> Some (package_record ext p))"
proof (induction ps arbitrary: results lg)
  case Nil
  show ?case by simp
next
  case (Cons p ps)
  show ?case
    by (simp add: Cons.IH find_app split: option.splits)
qed

lemma packages_loop_log:
  "snd (packages_loop ext ps (results, lg)) =
     lg @ concat (map (\<lambda>p. snd (package_license ext p)) ps)"
  by (induction ps arbitrary: results lg) simp_all

lemma packages_loop_dom:
  "dom (fst (packages_loop ext ps (results, lg))) = dom results \<union> package_id ` set ps"
  by (induction ps arbitrary: results lg) auto

lemma packages_Some_record:
  assumes "fst (packages ext pres) i = Some r"
  shows "\<exists>p\<in>set (catalog pres). package_id p = i \<and> r = package_record ext p"
proof (cases "find (\<lambda>p. package_id p = i) (rev (catalog pres))")
  case None
  with assms show ?thesis
    by (simp add: packages_def packages_loop_results)
next
  case (Some p)
  with assms have "r = package_record ext p"
    by (simp add: packages_def packages_loop_results)
  moreover from Some have "p \<in> set (catalog pres) \<and> package_id p = i"
    by (rule find_rev_Some_set)
  ultimately show ?thesis by blast
qed

lemma packages_last_record:
  assumes "catalog pres = ps1 @ p # ps2" and "\<forall>q\<in>set ps2. package_id q \<noteq> package_id p"
  shows "fst (packages ext pres) (package_id p) = Some (package_record ext p)"
proof -
  have "find (\<lambda>q. package_id q = package_id p) (rev (ps1 @ p # ps2)) = Some p"
    using assms(2) by (intro find_rev_last) auto
  with assms(1) show ?thesis
    by (simp add: packages_def packages_loop_results)
qed

lemma package_license_classification:
  "fst (package_license ext p) = classification (License ext) (Licenses p)"
  by (cases "Licenses p")
     (auto simp: package_license_def classification_def split: sum.splits)

lemma package_license_warnings:
  "concat (map (\<lambda>p. snd (package_license ext p)) ps) = warnings (License ext) ps"
proof -
  have "snd (package_license ext p) =
          (case Licenses p of [] \<Rightarrow> []
           | l # _ \<Rightarrow> (case License ext l of Inr _ \<Rightarrow> [] | Inl e \<Rightarrow> [Warnf p e]))" for p
    by (cases "Licenses p") (auto simp: package_license_def split: sum.splits)
  then show ?thesis by (simp add: warnings_def)
qed

lemma packages_lookup:
  "fst (packages ext pres) i =
     map_option (package_record ext) (find (\<lambda>p. package_id p = i) (rev (catalog pres)))"
  by (simp add: packages_def packages_loop_results split: option.splits)

lemma packages_dom: "dom (fst (packages ext pres)) = package_id ` set (catalog pres)"
  by (simp add: packages_def packages_loop_dom)

lemma packages_log: "snd (packages ext pres) = warnings (License ext) (catalog pres)"
  by (simp add: packages_def packages_loop_log package_license_warnings)

lemma package_record_fields:
  "PackageLicenseDeclared (package_record ext p) = fst (package_license ext p)"
  "PackageSPDXIdentifier (package_record ext p) = package_id p"
  "FilesAnalyzed (package_record ext p) = fst (packageFiles p)"
  "Files (package_record ext p) = snd (packageFiles p)"
  by (simp_all add: package_record_def Package2_2_literal_def split: prod.splits)

lemma package_record_constants:
  "PackageDownloadLocation (package_record ext p) = ''NOASSERTION''"
  "PackageCopyrightText (package_record ext p) = ''NOASSERTION''"
  "PackageVerificationCode (package_record ext p) = ''''"
  "PackageChecksumSHA1 (package_record ext p) = ''''"
  "PackageChecksumSHA256 (package_record ext p) = ''''"
  "PackageChecksumMD5 (package_record ext p) = ''''"
  "PackageLicenseConcluded (package_record ext p) = ''NOASSERTION''"
  by (simp_all add: package_record_def Package2_2_literal_def split: prod.splits)

lemma packageFiles_FileOwner:
  "Metadata p = FileOwner fs \<Longrightarrow>
     packageFiles p = (True, \<lambda>k. if k \<in> set fs then Some (File2_2_literal k k) else None)"
  by (simp add: packageFiles_def packageFiles_loop_apply fun_eq_iff)

lemma packageFiles_NotFileOwner:
  "Metadata p = NotFileOwner \<Longrightarrow> packageFiles p = (False, Map.empty)"
  by (simp add: packageFiles_def)

lemma Present_doc_parts:
  "Packages (fst (Present_doc ext pres)) = fst (packages ext pres)"
  "snd (Present_doc ext pres) = snd (packages ext pres)"
  by (simp_all add: Present_doc_def split: prod.splits)

lemma Present_parts:
  "fst (Present ext pres out) = fst (Save2_2 ext (fst (Present_doc ext pres)) out)"
  "fst (snd (Present ext pres out)) = snd (Save2_2 ext (fst (Present_doc ext pres)) out)"
  "snd (snd (Present ext pres out)) = snd (Present_doc ext pres)"
  by (simp_all add: Present_def split: prod.splits)

text \<open>The clock is read for the envelope only: the package records do not depend on it.\<close>

lemma packages_clock: "packages (ext\<lparr>Now_RFC3339 := t\<rparr>) pres = packages ext pres"
proof -
  have r: "package_record (ext\<lparr>Now_RFC3339 := t\<rparr>) p = package_record ext p" for p
    by (simp add: package_record_def package_license_def)
  have l: "package_license (ext\<lparr>Now_RFC3339 := t\<rparr>) p = package_license ext p" for p
    by (simp add: package_license_def)
  have "packages_loop (ext\<lparr>Now_RFC3339 := t\<rparr>) ps st = packages_loop ext ps st" for ps st
    by (induction ps arbitrary: st) (auto simp: r l)
  then show ?thesis by (simp add: packages_def)
qed

lemma find_distinct_key:
  "distinct (map f xs) \<Longrightarrow> x \<in> set xs \<Longrightarrow> find (\<lambda>y. f y = f x) xs = Some x"
  by (induction xs) (auto simp: rev_image_eqI)

lemma find_no_key: "k \<notin> f ` set xs \<Longrightarrow> find (\<lambda>y. f y = k) xs = None"
  by (induction xs) auto

text \<open>
  With pairwise different identifiers, the map of package records does not depend on the
  order in which the catalog enumerates its packages. With a repeated identifier it does:
  the last package enumerated with it stays (\<open>packages_last_record\<close>).
\<close>

lemma packages_order_irrelevant:
  assumes "distinct (map package_id (catalog pres))"
    and "distinct (map package_id (catalog pres'))"
    and "set (catalog pres') = set (catalog pres)"
  shows "fst (packages ext pres') = fst (packages ext pres)"
proof
  fix i
  show "fst (packages ext pres') i = fst (packages ext pres) i"
  proof (cases "i \<in> package_id ` set (catalog pres)")
    case False
    with assms(3) show ?thesis
      by (simp add: packages_lookup find_no_key)
  next
    case True
    then obtain x where x: "x \<in> set (catalog pres)" "i = package_id x" by blast
    have "find (\<lambda>p. package_id p = package_id x) (rev (catalog pres)) = Some x"
      using assms(1) x(1) by (intro find_distinct_key) (simp_all add: rev_map [symmetric])
    moreover have "find (\<lambda>p. package_id p = package_id x) (rev (catalog pres')) = Some x"
      using assms(2,3) x(1) by (intro find_distinct_key) (simp_all add: rev_map [symmetric])
    ultimately show ?thesis
      using x(2) by (simp add: packages_lookup)
  qed
qed

text \<open>
  The file records of a package are a map of their own: a path owned by two packages has
  a file record, with the same identifier, in the record of each of them.
\<close>

lemma file_records_per_package:
  assumes "Metadata p = FileOwner fs" and "Metadata q = FileOwner gs"
    and "f \<in> set fs" and "f \<in> set gs"
  shows "Files (package_record ext p) f = Some (File2_2_literal f f) \<and>
         Files (package_record ext q) f = Some (File2_2_literal f f)"
  using assms by (simp add: package_record_fields packageFiles_FileOwner)

subsection \<open>The example catalog, evaluated\<close>

lemma example_ids:
  "package_id curl = ''Package-deb-curl''"
  "package_id openssl = ''Package-deb-openssl''"
  "package_id wget = ''Package-deb-wget''"
  "package_id libcurl = ''Package-deb-libcurl''"
  "package_id curl_newer = ''Package-deb-curl''"
  by (simp_all add: package_id_def curl_def openssl_def wget_def libcurl_def curl_newer_def)

lemma example_packages:
  "fst (packages ext example_presenter) ''Package-deb-curl'' = Some (package_record ext curl_newer)"
  "fst (packages ext example_presenter) ''Package-deb-openssl'' = Some (package_record ext openssl)"
  "fst (packages ext example_presenter) ''Package-deb-wget'' = Some (package_record ext wget)"
  "fst (packages ext example_presenter) ''Package-deb-libcurl'' = Some (package_record ext libcurl)"
  by (simp_all add: packages_def example_presenter_def example_ids)

lemma example_classification:
  "classification (License example_externals) (Licenses curl) = ''NONE''"
  "classification (License example_externals) (Licenses openssl) = ''MIT''"
  "classification (License example_externals) (Licenses wget) = ''NOASSERTION''"
  by (simp_all add: classification_def example_externals_def example_License_def
        curl_def openssl_def wget_def)

section \<open>The claims\<close>

text \<open>
  C1. For every package of the catalog, the declared license of the package record is one
  of three outcomes: \<open>NONE\<close> when the license list is empty; otherwise only the first
  license string is looked up, and the declared license is the identifier returned when
  the lookup resolves it and \<open>NOASSERTION\<close> when the lookup fails. This holds for the
  record built in the iteration of any package, and every record of the resulting map is
  the record of a package of the catalog, classified from that package.
\<close>

theorem declared_license_classification:
  "PackageLicenseDeclared (package_record ext p) = classification (License ext) (Licenses p) \<and>
   (fst (packages ext pres) i = Some r \<longrightarrow>
      (\<exists>q\<in>set (catalog pres). package_id q = i \<and> r = package_record ext q \<and>
         PackageLicenseDeclared r = classification (License ext) (Licenses q)))"
proof (intro conjI impI)
  show "PackageLicenseDeclared (package_record ext p) = classification (License ext) (Licenses p)"
    by (simp add: package_record_fields package_license_classification)
next
  assume "fst (packages ext pres) i = Some r"
  then obtain q where "q \<in> set (catalog pres)" "package_id q = i" "r = package_record ext q"
    using packages_Some_record by blast
  then show "\<exists>q\<in>set (catalog pres). package_id q = i \<and> r = package_record ext q \<and>
         PackageLicenseDeclared r = classification (License ext) (Licenses q)"
    by (auto simp: package_record_fields package_license_classification)
qed

theorem declared_license_classification_witness:
  "fst (packages example_externals example_presenter) ''Package-deb-wget'' =
     Some (package_record example_externals wget) \<and>
   PackageLicenseDeclared (package_record example_externals wget) = ''NOASSERTION'' \<and>
   PackageLicenseDeclared (package_record example_externals openssl) = ''MIT'' \<and>
   PackageLicenseDeclared (package_record example_externals curl) = ''NONE''"
proof -
  have h: "fst (packages example_externals example_presenter) ''Package-deb-wget'' =
     Some (package_record example_externals wget)"
    by (rule example_packages)
  from declared_license_classification
         [of example_externals wget example_presenter "''Package-deb-wget''"
             "package_record example_externals wget"]
       declared_license_classification [of example_externals openssl]
       declared_license_classification [of example_externals curl]
       h example_classification
  show ?thesis by simp
qed

text \<open>
  C2. For every package, the package record has \<open>FilesAnalyzed\<close> true if and only if the
  metadata of the package is a file owner. When \<open>FilesAnalyzed\<close> is false the record has
  no file record; when the metadata is a file owner the keys of the file records are the
  owned paths, one record for each path (none for an empty list), named after its path.
  Every record of the resulting map is the record of a package of the catalog.
\<close>

theorem files_analyzed_iff_file_owner:
  "(FilesAnalyzed (package_record ext p) \<longleftrightarrow> (\<exists>fs. Metadata p = FileOwner fs)) \<and>
   (\<not> FilesAnalyzed (package_record ext p) \<longrightarrow> Files (package_record ext p) = Map.empty) \<and>
   (Metadata p = FileOwner fs \<longrightarrow>
      FilesAnalyzed (package_record ext p) \<and>
      dom (Files (package_record ext p)) = set fs \<and>
      (\<forall>f\<in>set fs. \<exists>fr. Files (package_record ext p) f = Some fr \<and>
                       FileName fr = f \<and> FileSPDXIdentifier fr = f)) \<and>
   (fst (packages ext pres) i = Some r \<longrightarrow>
      (\<exists>q\<in>set (catalog pres). package_id q = i \<and> r = package_record ext q))"
proof -
  have out: "fst (packages ext pres) i = Some r \<longrightarrow>
      (\<exists>q\<in>set (catalog pres). package_id q = i \<and> r = package_record ext q)"
    using packages_Some_record by blast
  show ?thesis
  proof (cases "Metadata p")
    case NotFileOwner
    then show ?thesis
      using out by (simp add: package_record_fields packageFiles_NotFileOwner)
  next
    case (FileOwner gs)
    then show ?thesis
      using out
      by (auto simp: package_record_fields packageFiles_FileOwner File2_2_literal_def dom_def)
  qed
qed

theorem files_analyzed_iff_file_owner_witness:
  "FilesAnalyzed (package_record example_externals libcurl) \<and>
   dom (Files (package_record example_externals libcurl)) =
     {''/usr/bin/curl'', ''/etc/curl.conf''} \<and>
   (\<exists>fr. Files (package_record example_externals libcurl) ''/etc/curl.conf'' = Some fr \<and>
      FileName fr = ''/etc/curl.conf'' \<and> FileSPDXIdentifier fr = ''/etc/curl.conf'') \<and>
   \<not> FilesAnalyzed (package_record example_externals curl) \<and>
   Files (package_record example_externals curl) = Map.empty \<and>
   (\<exists>q\<in>set (catalog example_presenter). package_id q = ''Package-deb-libcurl'' \<and>
      package_record example_externals libcurl = package_record example_externals q)"
proof -
  have owner: "Metadata libcurl = FileOwner [''/usr/bin/curl'', ''/etc/curl.conf'', ''/usr/bin/curl'']"
    by (simp add: libcurl_def)
  have none: "\<not> (\<exists>fs. Metadata curl = FileOwner fs)"
    by (simp add: curl_def)
  have out: "fst (packages example_externals example_presenter) ''Package-deb-libcurl'' =
      Some (package_record example_externals libcurl)"
    by (rule example_packages)
  from files_analyzed_iff_file_owner
         [of example_externals libcurl "[''/usr/bin/curl'', ''/etc/curl.conf'', ''/usr/bin/curl'']"
             example_presenter "''Package-deb-libcurl''" "package_record example_externals libcurl"]
       owner out
  have a: "FilesAnalyzed (package_record example_externals libcurl) \<and>
     dom (Files (package_record example_externals libcurl)) =
       {''/usr/bin/curl'', ''/etc/curl.conf''} \<and>
     (\<exists>fr. Files (package_record example_externals libcurl) ''/etc/curl.conf'' = Some fr \<and>
        FileName fr = ''/etc/curl.conf'' \<and> FileSPDXIdentifier fr = ''/etc/curl.conf'') \<and>
     (\<exists>q\<in>set (catalog example_presenter). package_id q = ''Package-deb-libcurl'' \<and>
        package_record example_externals libcurl = package_record example_externals q)"
    by (simp add: insert_commute)
  from files_analyzed_iff_file_owner [of example_externals curl] none
  have b: "\<not> FilesAnalyzed (package_record example_externals curl) \<and>
     Files (package_record example_externals curl) = Map.empty"
    by simp
  from a b show ?thesis by simp
qed

text \<open>
  C4. For every path owned by a package whose metadata is a file owner, the file record
  stored for it has the path itself, unchanged, as identifier and as file name; its
  concluded license is \<open>NOASSERTION\<close>, its license information is the one-element list
  \<open>[NOASSERTION]\<close>, its copyright text is \<open>NOASSERTION\<close>, and its checksums and its
  optional fields are empty.
\<close>

theorem file_record_fields:
  assumes "Metadata p = FileOwner fs" and "f \<in> set fs"
  shows "\<exists>fr. Files (package_record ext p) f = Some fr \<and>
           FileSPDXIdentifier fr = f \<and> FileName fr = f \<and>
           LicenseConcluded fr = ''NOASSERTION'' \<and>
           LicenseInfoInFile fr = [''NOASSERTION''] \<and>
           FileCopyrightText fr = ''NOASSERTION'' \<and>
           FileChecksumSHA1 fr = '''' \<and> FileChecksumSHA256 fr = '''' \<and>
           FileChecksumMD5 fr = '''' \<and>
           LicenseComments fr = '''' \<and> FileComment fr = '''' \<and> FileNotice fr = '''' \<and>
           FileType fr = [] \<and> ArtifactOfProjects fr = [] \<and> FileContributor fr = [] \<and>
           FileAttributionTexts fr = [] \<and> FileDependencies fr = [] \<and>
           Snippets fr = Map.empty"
  using assms
  by (simp add: package_record_fields packageFiles_FileOwner File2_2_literal_def)

theorem file_record_fields_witness:
  "\<exists>fr. Files (package_record example_externals
                 (libcurl\<lparr>Metadata := FileOwner [''/usr/./bin//curl/'', ''relative path '']\<rparr>))
           ''/usr/./bin//curl/'' = Some fr \<and>
        FileSPDXIdentifier fr = ''/usr/./bin//curl/'' \<and> FileName fr = ''/usr/./bin//curl/'' \<and>
        LicenseConcluded fr = ''NOASSERTION'' \<and> LicenseInfoInFile fr = [''NOASSERTION''] \<and>
        FileCopyrightText fr = ''NOASSERTION'' \<and> FileChecksumSHA1 fr = ''''"
proof -
  have owner: "Metadata (libcurl\<lparr>Metadata := FileOwner [''/usr/./bin//curl/'', ''relative path '']\<rparr>) =
      FileOwner [''/usr/./bin//curl/'', ''relative path '']"
    by simp
  have owned: "''/usr/./bin//curl/'' \<in> set [''/usr/./bin//curl/'', ''relative path '']"
    by simp
  from file_record_fields [OF owner owned, of example_externals]
  show ?thesis by blast
qed

text \<open>
  C6. For every package, the identifier of the package record is \<open>Package-\<close>, the type of
  the package, a hyphen and the name of the package, and the record is stored under that
  identifier. Nothing makes identifiers unique: two packages of the same type and name
  get the same identifier.
\<close>

theorem package_identifier_synthesis:
  "PackageSPDXIdentifier (package_record ext p) = ''Package-'' @ Type p @ ''-'' @ Name p \<and>
   (Type p = Type q \<and> Name p = Name q \<longrightarrow>
      PackageSPDXIdentifier (package_record ext p) = PackageSPDXIdentifier (package_record ext q)) \<and>
   (fst (packages ext pres) i = Some r \<longrightarrow>
      PackageSPDXIdentifier r = i \<and>
      (\<exists>q\<in>set (catalog pres). i = ''Package-'' @ Type q @ ''-'' @ Name q))"
proof (intro conjI impI)
  assume "fst (packages ext pres) i = Some r"
  then obtain q where q: "q \<in> set (catalog pres)" "package_id q = i" "r = package_record ext q"
    using packages_Some_record by blast
  then show "PackageSPDXIdentifier r = i"
    by (simp add: package_record_fields)
  from q show "\<exists>q\<in>set (catalog pres). i = ''Package-'' @ Type q @ ''-'' @ Name q"
    by (auto simp: package_id_def)
qed (simp_all add: package_record_fields package_id_def)

theorem package_identifier_synthesis_witness:
  "curl \<noteq> curl_newer \<and>
   PackageSPDXIdentifier (package_record example_externals curl) = ''Package-deb-curl'' \<and>
   PackageSPDXIdentifier (package_record example_externals curl) =
     PackageSPDXIdentifier (package_record example_externals curl_newer) \<and>
   PackageSPDXIdentifier (package_record example_externals curl_newer) = ''Package-deb-curl''"
proof -
  have differ: "curl \<noteq> curl_newer"
    by (simp add: curl_def curl_newer_def)
  have same: "Type curl = Type curl_newer \<and> Name curl = Name curl_newer"
    by (simp add: curl_def curl_newer_def)
  have name: "''Package-'' @ Type curl @ ''-'' @ Name curl = ''Package-deb-curl''"
    by (simp add: curl_def)
  have out: "fst (packages example_externals example_presenter) ''Package-deb-curl'' =
      Some (package_record example_externals curl_newer)"
    by (rule example_packages)
  from package_identifier_synthesis
         [of example_externals curl curl_newer example_presenter "''Package-deb-curl''"
             "package_record example_externals curl_newer"]
       differ same name out
  show ?thesis by simp
qed

text \<open>
  C7. For every package, the download location of the package record is \<open>NOASSERTION\<close>,
  its copyright text is \<open>NOASSERTION\<close>, its verification code is empty, also when the
  files are analyzed, and its three checksums (SHA1, SHA256, MD5) are empty. This holds
  for the record built in the iteration of any package and for every record of the
  resulting map.
\<close>

theorem package_sentinel_fields:
  assumes "r = package_record ext p \<or> fst (packages ext pres) i = Some r"
  shows "PackageDownloadLocation r = ''NOASSERTION'' \<and>
         PackageCopyrightText r = ''NOASSERTION'' \<and>
         PackageVerificationCode r = '''' \<and>
         PackageChecksumSHA1 r = '''' \<and>
         PackageChecksumSHA256 r = '''' \<and>
         PackageChecksumMD5 r = ''''"
proof -
  from assms obtain q where "r = package_record ext q"
    using packages_Some_record by blast
  then show ?thesis
    by (simp add: package_record_constants)
qed

theorem package_sentinel_fields_witness:
  "fst (packages example_externals example_presenter) ''Package-deb-libcurl'' =
     Some (package_record example_externals libcurl) \<and>
   FilesAnalyzed (package_record example_externals libcurl) \<and>
   PackageDownloadLocation (package_record example_externals libcurl) = ''NOASSERTION'' \<and>
   PackageCopyrightText (package_record example_externals libcurl) = ''NOASSERTION'' \<and>
   PackageVerificationCode (package_record example_externals libcurl) = '''' \<and>
   PackageChecksumSHA1 (package_record example_externals libcurl) = '''' \<and>
   PackageChecksumSHA256 (package_record example_externals libcurl) = '''' \<and>
   PackageChecksumMD5 (package_record example_externals libcurl) = ''''"
proof -
  have out: "fst (packages example_externals example_presenter) ''Package-deb-libcurl'' =
      Some (package_record example_externals libcurl)"
    by (rule example_packages)
  have analyzed: "FilesAnalyzed (package_record example_externals libcurl)"
    by (simp add: package_record_fields packageFiles_def libcurl_def)
  from package_sentinel_fields [OF disjI2, OF out] out analyzed
  show ?thesis by simp
qed

text \<open>
  C9. For every package, whatever its license list and whatever the license lookup
  answers, the concluded license of the package record is \<open>NOASSERTION\<close>. The three-way
  classification goes to the declared license only: another license list or another
  lookup changes no other field of the record.
\<close>

theorem concluded_license_noassertion:
  "PackageLicenseConcluded (package_record ext p) = ''NOASSERTION'' \<and>
   (fst (packages ext pres) i = Some r \<longrightarrow> PackageLicenseConcluded r = ''NOASSERTION'') \<and>
   package_record ext' (p\<lparr>Licenses := ls\<rparr>) =
     (package_record ext p)\<lparr>PackageLicenseDeclared := classification (License ext') ls\<rparr>"
proof (intro conjI impI)
  show "PackageLicenseConcluded (package_record ext p) = ''NOASSERTION''"
    by (simp add: package_record_constants)
next
  assume "fst (packages ext pres) i = Some r"
  then obtain q where "r = package_record ext q"
    using packages_Some_record by blast
  then show "PackageLicenseConcluded r = ''NOASSERTION''"
    by (simp add: package_record_constants)
next
  have "fst (package_license ext' (p\<lparr>Licenses := ls\<rparr>)) = classification (License ext') ls"
    by (simp add: package_license_classification)
  then show "package_record ext' (p\<lparr>Licenses := ls\<rparr>) =
     (package_record ext p)\<lparr>PackageLicenseDeclared := classification (License ext') ls\<rparr>"
    by (simp add: package_record_def Package2_2_literal_def packageFiles_def package_id_def
          split: prod.splits)
qed

theorem concluded_license_noassertion_witness:
  "fst (packages example_externals example_presenter) ''Package-deb-openssl'' =
     Some (package_record example_externals openssl) \<and>
   PackageLicenseDeclared (package_record example_externals openssl) = ''MIT'' \<and>
   PackageLicenseConcluded (package_record example_externals openssl) = ''NOASSERTION'' \<and>
   PackageLicenseConcluded (package_record example_externals wget) = ''NOASSERTION'' \<and>
   PackageLicenseConcluded (package_record example_externals curl) = ''NOASSERTION''"
proof -
  have out: "fst (packages example_externals example_presenter) ''Package-deb-openssl'' =
      Some (package_record example_externals openssl)"
    by (rule example_packages)
  have declared: "PackageLicenseDeclared (package_record example_externals openssl) = ''MIT''"
    by (simp add: package_record_fields package_license_classification example_classification)
  from concluded_license_noassertion
         [of example_externals openssl example_presenter "''Package-deb-openssl''"
             "package_record example_externals openssl" example_externals "[]"]
       concluded_license_noassertion [THEN conjunct1, of example_externals wget]
       concluded_license_noassertion [THEN conjunct1, of example_externals curl]
       out declared
  show ?thesis by simp
qed

text \<open>
  C3. The presentation returns an error exactly when the encoder does, on the document
  that was assembled. A license lookup that fails stops nothing and skips no package: the
  document has a record under the identifier of every package of the catalog whatever
  the lookup answers. A package whose first license string is not resolved gets a
  warning in the log and the declared license \<open>NOASSERTION\<close> in its record, which is
  the record of the document unless a later package has the same identifier; the log
  holds these warnings and nothing else. Every record of the document is the record of a
  package of the catalog, with the declared license classified from that package.
\<close>

theorem present_fails_only_in_encoder:
  "fst (Present ext pres out) = fst (Save2_2 ext (fst (Present_doc ext pres)) out) \<and>
   dom (Packages (fst (Present_doc ext pres))) = package_id ` set (catalog pres) \<and>
   snd (snd (Present ext pres out)) = warnings (License ext) (catalog pres) \<and>
   (p \<in> set (catalog pres) \<and> Licenses p = l # ls \<and> License ext l = Inl e \<longrightarrow>
      PackageLicenseDeclared (package_record ext p) = ''NOASSERTION'' \<and>
      Warnf p e \<in> set (snd (snd (Present ext pres out))) \<and>
      (\<exists>r. Packages (fst (Present_doc ext pres)) (package_id p) = Some r)) \<and>
   (catalog pres = ps1 @ p # ps2 \<and> (\<forall>q\<in>set ps2. package_id q \<noteq> package_id p) \<and>
    Licenses p = l # ls \<and> License ext l = Inl e \<longrightarrow>
      (\<exists>r. Packages (fst (Present_doc ext pres)) (package_id p) = Some r \<and>
           PackageLicenseDeclared r = ''NOASSERTION'')) \<and>
   (Packages (fst (Present_doc ext pres)) i = Some r \<longrightarrow>
      (\<exists>q\<in>set (catalog pres). package_id q = i \<and> r = package_record ext q \<and>
         PackageLicenseDeclared r = classification (License ext) (Licenses q)))"
proof -
  have downgrade: "PackageLicenseDeclared (package_record ext p) = ''NOASSERTION''"
    if "Licenses p = l # ls" and "License ext l = Inl e"
    using that
    by (simp add: package_record_fields package_license_classification classification_def)
  have warned: "Warnf p e \<in> set (warnings (License ext) (catalog pres))"
    if "p \<in> set (catalog pres)" and "Licenses p = l # ls" and "License ext l = Inl e"
    using that by (auto simp: warnings_def intro!: bexI [of _ p])
  have present: "\<exists>r. fst (packages ext pres) (package_id p) = Some r"
    if "p \<in> set (catalog pres)"
  proof -
    from that have "package_id p \<in> dom (fst (packages ext pres))"
      by (simp add: packages_dom)
    then show ?thesis by blast
  qed
  have last: "\<exists>r. fst (packages ext pres) (package_id p) = Some r \<and>
      PackageLicenseDeclared r = ''NOASSERTION''"
    if "catalog pres = ps1 @ p # ps2" and "\<forall>q\<in>set ps2. package_id q \<noteq> package_id p"
      and "Licenses p = l # ls" and "License ext l = Inl e"
    using packages_last_record [OF that(1,2), where ext = ext] downgrade [OF that(3,4)]
    by simp
  have out: "\<exists>q\<in>set (catalog pres). package_id q = i \<and> r = package_record ext q \<and>
      PackageLicenseDeclared r = classification (License ext) (Licenses q)"
    if "fst (packages ext pres) i = Some r"
  proof -
    from that obtain q where "q \<in> set (catalog pres)" "package_id q = i"
      "r = package_record ext q"
      using packages_Some_record by blast
    then show ?thesis
      by (auto simp: package_record_fields package_license_classification)
  qed
  show ?thesis
    using downgrade warned present last out
    by (simp add: Present_parts Present_doc_parts packages_log packages_dom)
qed

theorem present_fails_only_in_encoder_witness:
  "fst (Present example_externals example_presenter []) = None \<and>
   fst (Present unwritable_externals example_presenter []) = Some ''sink unwritable'' \<and>
   dom (Packages (fst (Present_doc example_externals example_presenter))) =
     {''Package-deb-curl'', ''Package-deb-openssl'', ''Package-deb-wget'', ''Package-deb-libcurl''} \<and>
   snd (snd (Present example_externals example_presenter [])) =
     [Warnf wget ''unrecognized license''] \<and>
   PackageLicenseDeclared (package_record example_externals wget) = ''NOASSERTION'' \<and>
   (\<exists>r. Packages (fst (Present_doc example_externals example_presenter)) ''Package-deb-wget'' =
          Some r \<and> PackageLicenseDeclared r = ''NOASSERTION'') \<and>
   (\<exists>q\<in>set (catalog example_presenter). package_id q = ''Package-deb-openssl'' \<and>
      PackageLicenseDeclared (package_record example_externals openssl) =
        classification (License example_externals) (Licenses q))"
proof -
  have ok: "fst (Save2_2 example_externals d []) = None" for d
    by (simp add: example_externals_def)
  have bad: "fst (Save2_2 unwritable_externals d []) = Some ''sink unwritable''" for d
    by (simp add: unwritable_externals_def)
  have ids: "package_id ` set (catalog example_presenter) =
      {''Package-deb-curl'', ''Package-deb-openssl'', ''Package-deb-wget'', ''Package-deb-libcurl''}"
    by (simp add: example_presenter_def example_ids insert_commute)
  have lg: "warnings (License example_externals) (catalog example_presenter) =
      [Warnf wget ''unrecognized license'']"
    by (simp add: warnings_def example_presenter_def example_externals_def example_License_def
          curl_def openssl_def wget_def libcurl_def curl_newer_def)
  have cat: "catalog example_presenter = [curl, openssl] @ wget # [libcurl, curl_newer]"
    by (simp add: example_presenter_def)
  have mem: "wget \<in> set (catalog example_presenter)"
    by (simp add: example_presenter_def)
  have later: "\<forall>q\<in>set [libcurl, curl_newer]. package_id q \<noteq> package_id wget"
    by (simp add: example_ids)
  have lic: "Licenses wget = ''totally-bogus-license'' # []"
    by (simp add: wget_def)
  have fail: "License example_externals ''totally-bogus-license'' = Inl ''unrecognized license''"
    by (simp add: example_externals_def example_License_def)
  have out: "Packages (fst (Present_doc example_externals example_presenter))
      ''Package-deb-openssl'' = Some (package_record example_externals openssl)"
    by (simp add: Present_doc_parts example_packages)
  have wid: "package_id wget = ''Package-deb-wget''"
    by (rule example_ids)
  from present_fails_only_in_encoder
         [of example_externals example_presenter "[]" wget "''totally-bogus-license''" "[]"
             "''unrecognized license''" "[curl, openssl]" "[libcurl, curl_newer]"
             "''Package-deb-openssl''" "package_record example_externals openssl"]
       cat mem later lic fail out
  have a: "dom (Packages (fst (Present_doc example_externals example_presenter))) =
       package_id ` set (catalog example_presenter) \<and>
     fst (Present example_externals example_presenter []) =
       fst (Save2_2 example_externals (fst (Present_doc example_externals example_presenter)) []) \<and>
     snd (snd (Present example_externals example_presenter [])) =
       warnings (License example_externals) (catalog example_presenter) \<and>
     PackageLicenseDeclared (package_record example_externals wget) = ''NOASSERTION'' \<and>
     (\<exists>r. Packages (fst (Present_doc example_externals example_presenter)) (package_id wget) =
          Some r \<and> PackageLicenseDeclared r = ''NOASSERTION'') \<and>
     (\<exists>q\<in>set (catalog example_presenter). package_id q = ''Package-deb-openssl'' \<and>
        PackageLicenseDeclared (package_record example_externals openssl) =
          classification (License example_externals) (Licenses q))"
    by blast
  from present_fails_only_in_encoder [THEN conjunct1, of unwritable_externals example_presenter "[]"]
       bad
  have b: "fst (Present unwritable_externals example_presenter []) = Some ''sink unwritable''"
    by simp
  from a b ok ids lg wid show ?thesis by simp
qed

text \<open>
  C5, as the claim states it, fails: the text of the tool creator is not the application
  name followed at once by the version. For the application \<open>syft\<close> at version
  \<open>0.13.0\<close> it is \<open>syft-0.13.0\<close>, with a hyphen between the two.
\<close>

theorem tool_creator_counterexample:
  "CreatorTools (CreationInfo (fst (Present_doc example_externals example_presenter))) =
     [''syft-0.13.0''] \<and>
   CreatorTools (CreationInfo (fst (Present_doc example_externals example_presenter))) \<noteq>
     [ApplicationName example_externals @ FromBuild_Version example_externals]"
  by (simp add: Present_doc_def example_externals_def split: prod.splits)

text \<open>
  C5, amended. For every presentation call, the envelope has exactly one organization
  creator, the literal \<open>Anchore, Inc\<close>, exactly one tool creator, whose text is the
  application name, a hyphen and the build-time version string, and no person creator;
  the creators together are therefore never empty.
\<close>

theorem creators_of_envelope:
  "CreatorOrganizations (CreationInfo (fst (Present_doc ext pres))) = [''Anchore, Inc''] \<and>
   CreatorTools (CreationInfo (fst (Present_doc ext pres))) =
     [ApplicationName ext @ ''-'' @ FromBuild_Version ext] \<and>
   CreatorPersons (CreationInfo (fst (Present_doc ext pres))) = [] \<and>
   CreatorPersons (CreationInfo (fst (Present_doc ext pres))) @
   CreatorOrganizations (CreationInfo (fst (Present_doc ext pres))) @
   CreatorTools (CreationInfo (fst (Present_doc ext pres))) \<noteq> []"
  by (simp add: Present_doc_def split: prod.splits)

text \<open>
  C8, as the claim states it, fails: an unchanged catalog does not fix the order in which
  its packages are enumerated, and with two packages of one identifier the order decides
  which record stays. The same two packages, the same source metadata and even the same
  clock reading give \<open>Package-deb-curl\<close> the version \<open>7.70\<close> for one order and
  \<open>7.68\<close> for the other.
\<close>

theorem enumeration_order_counterexample:
  "set (catalog (example_presenter\<lparr>catalog := [curl_newer, curl]\<rparr>)) =
     set (catalog (example_presenter\<lparr>catalog := [curl, curl_newer]\<rparr>)) \<and>
   srcMetadata (example_presenter\<lparr>catalog := [curl_newer, curl]\<rparr>) =
     srcMetadata (example_presenter\<lparr>catalog := [curl, curl_newer]\<rparr>) \<and>
   map_option PackageVersion
     (Packages (fst (Present_doc example_externals
        (example_presenter\<lparr>catalog := [curl, curl_newer]\<rparr>))) ''Package-deb-curl'') =
     Some ''7.70'' \<and>
   map_option PackageVersion
     (Packages (fst (Present_doc example_externals
        (example_presenter\<lparr>catalog := [curl_newer, curl]\<rparr>))) ''Package-deb-curl'') =
     Some ''7.68'' \<and>
   Packages (fst (Present_doc example_externals
       (example_presenter\<lparr>catalog := [curl, curl_newer]\<rparr>))) \<noteq>
   Packages (fst (Present_doc example_externals
       (example_presenter\<lparr>catalog := [curl_newer, curl]\<rparr>)))"
proof -
  have v: "PackageVersion (package_record example_externals curl_newer) = ''7.70''"
    "PackageVersion (package_record example_externals curl) = ''7.68''"
    by (simp_all add: package_record_def Package2_2_literal_def curl_def curl_newer_def
          split: prod.splits)
  have a: "Packages (fst (Present_doc example_externals
        (example_presenter\<lparr>catalog := [curl, curl_newer]\<rparr>))) ''Package-deb-curl'' =
      Some (package_record example_externals curl_newer)"
    by (simp add: Present_doc_parts packages_def example_ids)
  have b: "Packages (fst (Present_doc example_externals
        (example_presenter\<lparr>catalog := [curl_newer, curl]\<rparr>))) ''Package-deb-curl'' =
      Some (package_record example_externals curl)"
    by (simp add: Present_doc_parts packages_def example_ids)
  have ne: "package_record example_externals curl_newer \<noteq> package_record example_externals curl"
  proof
    assume "package_record example_externals curl_newer = package_record example_externals curl"
    then have "PackageVersion (package_record example_externals curl_newer) =
        PackageVersion (package_record example_externals curl)"
      by (rule arg_cong)
    with v show False by simp
  qed
  have differ: "Packages (fst (Present_doc example_externals
       (example_presenter\<lparr>catalog := [curl, curl_newer]\<rparr>))) \<noteq>
     Packages (fst (Present_doc example_externals
       (example_presenter\<lparr>catalog := [curl_newer, curl]\<rparr>)))"
  proof
    assume "Packages (fst (Present_doc example_externals
         (example_presenter\<lparr>catalog := [curl, curl_newer]\<rparr>))) =
       Packages (fst (Present_doc example_externals
         (example_presenter\<lparr>catalog := [curl_newer, curl]\<rparr>)))"
    then have "Packages (fst (Present_doc example_externals
         (example_presenter\<lparr>catalog := [curl, curl_newer]\<rparr>))) ''Package-deb-curl'' =
       Packages (fst (Present_doc example_externals
         (example_presenter\<lparr>catalog := [curl_newer, curl]\<rparr>))) ''Package-deb-curl''"
      by (rule fun_cong)
    then have "package_record example_externals curl_newer = package_record example_externals curl"
      unfolding a b by (rule option.inject [THEN iffD1])
    with ne show False by (rule notE)
  qed
  have st: "set (catalog (example_presenter\<lparr>catalog := [curl_newer, curl]\<rparr>)) =
      set (catalog (example_presenter\<lparr>catalog := [curl, curl_newer]\<rparr>))"
    by (simp add: insert_commute)
  have sm: "srcMetadata (example_presenter\<lparr>catalog := [curl_newer, curl]\<rparr>) =
      srcMetadata (example_presenter\<lparr>catalog := [curl, curl_newer]\<rparr>)"
    by simp
  have va: "map_option PackageVersion
     (Packages (fst (Present_doc example_externals
        (example_presenter\<lparr>catalog := [curl, curl_newer]\<rparr>))) ''Package-deb-curl'') =
     Some ''7.70''"
    unfolding a by (simp add: v)
  have vb: "map_option PackageVersion
     (Packages (fst (Present_doc example_externals
        (example_presenter\<lparr>catalog := [curl_newer, curl]\<rparr>))) ''Package-deb-curl'') =
     Some ''7.68''"
    unfolding b by (simp add: v)
  from st sm va vb differ show ?thesis
    by (intro conjI)
qed

text \<open>
  C8, amended. Two presentations of the same catalog and source metadata, with the same
  collaborators and another clock reading, build documents that are equal in every field
  except the creation timestamp, provided that the catalog enumerates its packages in
  the same order both times or that its packages have pairwise different identifiers
  (type and name): the second document is the first one with \<open>Created\<close> replaced by
  the second clock reading. With the same order the logs are equal too.
\<close>

theorem two_runs_differ_in_timestamp_only:
  assumes "srcMetadata pres' = srcMetadata pres"
    and "catalog pres' = catalog pres \<or>
         (distinct (map package_id (catalog pres)) \<and>
          distinct (map package_id (catalog pres')) \<and>
          set (catalog pres') = set (catalog pres))"
  shows "fst (Present_doc (ext\<lparr>Now_RFC3339 := tb\<rparr>) pres') =
     (fst (Present_doc (ext\<lparr>Now_RFC3339 := ta\<rparr>) pres))
       \<lparr>CreationInfo :=
          (CreationInfo (fst (Present_doc (ext\<lparr>Now_RFC3339 := ta\<rparr>) pres)))\<lparr>Created := tb\<rparr>\<rparr> \<and>
   Created (CreationInfo (fst (Present_doc (ext\<lparr>Now_RFC3339 := tb\<rparr>) pres'))) = tb \<and>
   (catalog pres' = catalog pres \<longrightarrow>
      snd (Present_doc (ext\<lparr>Now_RFC3339 := tb\<rparr>) pres') =
        snd (Present_doc (ext\<lparr>Now_RFC3339 := ta\<rparr>) pres))"
proof -
  have same: "packages ext pres' = packages ext pres" if "catalog pres' = catalog pres"
    using that by (simp add: packages_def)
  from assms(2) have pk: "fst (packages ext pres') = fst (packages ext pres)"
    using same packages_order_irrelevant by metis
  have doc: "fst (Present_doc (ext\<lparr>Now_RFC3339 := t\<rparr>) P) =
      \<lparr> CreationInfo = \<lparr>
            SPDXVersion = ''SPDX-2.2'',
            DataLicense = ''CC0-1.0'',
            SPDXIdentifier = ''DOCUMENT'',
            DocumentName = UserInput (ImageMetadata (srcMetadata P)),
            DocumentNamespace =
              ''https://anchore.com/syft/image/'' @ UserInput (ImageMetadata (srcMetadata P)),
            ExternalDocumentReferences = [],
            LicenseListVersion = '''',
            CreatorPersons = [],
            CreatorOrganizations = [''Anchore, Inc''],
            CreatorTools = [ApplicationName ext @ ''-'' @ FromBuild_Version ext],
            Created = t,
            CreatorComment = '''',
            DocumentComment = '''' \<rparr>,
          Packages = fst (packages ext P) \<rparr>" for t P
    by (simp add: Present_doc_def packages_clock split: prod.splits)
  have lg: "snd (Present_doc (ext\<lparr>Now_RFC3339 := t\<rparr>) P) = snd (packages ext P)" for t P
    by (simp add: Present_doc_parts packages_clock)
  show ?thesis
    using same by (simp add: doc lg pk assms(1))
qed

theorem two_runs_differ_in_timestamp_only_witness:
  "fst (Present_doc (example_externals\<lparr>Now_RFC3339 := ''2021-02-02T08:30:00Z''\<rparr>)
          (example_presenter\<lparr>catalog := [wget, openssl]\<rparr>)) =
     (fst (Present_doc (example_externals\<lparr>Now_RFC3339 := ''2021-02-01T12:00:00Z''\<rparr>)
          (example_presenter\<lparr>catalog := [openssl, wget]\<rparr>)))
       \<lparr>CreationInfo :=
          (CreationInfo (fst (Present_doc
             (example_externals\<lparr>Now_RFC3339 := ''2021-02-01T12:00:00Z''\<rparr>)
             (example_presenter\<lparr>catalog := [openssl, wget]\<rparr>))))
          \<lparr>Created := ''2021-02-02T08:30:00Z''\<rparr>\<rparr> \<and>
   fst (Present_doc (example_externals\<lparr>Now_RFC3339 := ''2021-02-02T08:30:00Z''\<rparr>)
          example_presenter) =
     (fst (Present_doc (example_externals\<lparr>Now_RFC3339 := ''2021-02-01T12:00:00Z''\<rparr>)
          example_presenter))
       \<lparr>CreationInfo :=
          (CreationInfo (fst (Present_doc
             (example_externals\<lparr>Now_RFC3339 := ''2021-02-01T12:00:00Z''\<rparr>)
             example_presenter)))
          \<lparr>Created := ''2021-02-02T08:30:00Z''\<rparr>\<rparr> \<and>
   snd (Present_doc (example_externals\<lparr>Now_RFC3339 := ''2021-02-02T08:30:00Z''\<rparr>)
          example_presenter) =
     snd (Present_doc (example_externals\<lparr>Now_RFC3339 := ''2021-02-01T12:00:00Z''\<rparr>)
          example_presenter)"
proof -
  have src: "srcMetadata (example_presenter\<lparr>catalog := [wget, openssl]\<rparr>) =
      srcMetadata (example_presenter\<lparr>catalog := [openssl, wget]\<rparr>)"
    by simp
  have perm: "catalog (example_presenter\<lparr>catalog := [wget, openssl]\<rparr>) =
        catalog (example_presenter\<lparr>catalog := [openssl, wget]\<rparr>) \<or>
      (distinct (map package_id (catalog (example_presenter\<lparr>catalog := [openssl, wget]\<rparr>))) \<and>
       distinct (map package_id (catalog (example_presenter\<lparr>catalog := [wget, openssl]\<rparr>))) \<and>
       set (catalog (example_presenter\<lparr>catalog := [wget, openssl]\<rparr>)) =
         set (catalog (example_presenter\<lparr>catalog := [openssl, wget]\<rparr>)))"
    by (simp add: example_ids insert_commute)
  have same: "catalog example_presenter = catalog example_presenter \<or>
      (distinct (map package_id (catalog example_presenter)) \<and>
       distinct (map package_id (catalog example_presenter)) \<and>
       set (catalog example_presenter) = set (catalog example_presenter))"
    by simp
  note first = two_runs_differ_in_timestamp_only
         [where ext = example_externals and tb = "''2021-02-02T08:30:00Z''"
            and ta = "''2021-02-01T12:00:00Z''", OF src perm]
  note second = two_runs_differ_in_timestamp_only
         [where ext = example_externals and tb = "''2021-02-02T08:30:00Z''"
            and ta = "''2021-02-01T12:00:00Z''", OF refl same]
  show ?thesis
  proof (intro conjI)
    show "snd (Present_doc (example_externals\<lparr>Now_RFC3339 := ''2021-02-02T08:30:00Z''\<rparr>)
          example_presenter) =
     snd (Present_doc (example_externals\<lparr>Now_RFC3339 := ''2021-02-01T12:00:00Z''\<rparr>)
          example_presenter)"
      by (rule second [THEN conjunct2, THEN conjunct2, THEN mp, OF refl])
  qed (rule first [THEN conjunct1], rule second [THEN conjunct1])
qed

text \<open>
  C10, as the claim states it, fails for file records: the output can hold two records
  with one identifier. Two packages that own the path \<open>/usr/bin/curl\<close> are two
  package records of one document, and each of them carries a file record with that
  path as its identifier.
\<close>

theorem file_identifier_counterexample:
  "Packages (fst (Present_doc example_externals
      (example_presenter\<lparr>catalog := [libcurl, libcurl\<lparr>Name := ''libcurl4''\<rparr>]\<rparr>)))
     ''Package-deb-libcurl'' = Some (package_record example_externals libcurl) \<and>
   Packages (fst (Present_doc example_externals
      (example_presenter\<lparr>catalog := [libcurl, libcurl\<lparr>Name := ''libcurl4''\<rparr>]\<rparr>)))
     ''Package-deb-libcurl4'' =
     Some (package_record example_externals (libcurl\<lparr>Name := ''libcurl4''\<rparr>)) \<and>
   ''Package-deb-libcurl'' \<noteq> ''Package-deb-libcurl4'' \<and>
   Files (package_record example_externals libcurl) ''/usr/bin/curl'' =
     Some (File2_2_literal ''/usr/bin/curl'' ''/usr/bin/curl'') \<and>
   Files (package_record example_externals (libcurl\<lparr>Name := ''libcurl4''\<rparr>)) ''/usr/bin/curl'' =
     Some (File2_2_literal ''/usr/bin/curl'' ''/usr/bin/curl'') \<and>
   FileSPDXIdentifier (File2_2_literal ''/usr/bin/curl'' ''/usr/bin/curl'') = ''/usr/bin/curl''"
proof -
  have pk: "Packages (fst (Present_doc example_externals
        (example_presenter\<lparr>catalog := [libcurl, libcurl\<lparr>Name := ''libcurl4''\<rparr>]\<rparr>)))
       ''Package-deb-libcurl'' = Some (package_record example_externals libcurl)"
    "Packages (fst (Present_doc example_externals
        (example_presenter\<lparr>catalog := [libcurl, libcurl\<lparr>Name := ''libcurl4''\<rparr>]\<rparr>)))
       ''Package-deb-libcurl4'' =
     Some (package_record example_externals (libcurl\<lparr>Name := ''libcurl4''\<rparr>))"
    by (simp_all add: Present_doc_parts packages_def package_id_def libcurl_def)
  have fl: "Files (package_record ext p) ''/usr/bin/curl'' =
      Some (File2_2_literal ''/usr/bin/curl'' ''/usr/bin/curl'')"
    if "Metadata p = FileOwner [''/usr/bin/curl'', ''/etc/curl.conf'', ''/usr/bin/curl'']"
    for ext :: "(string, string, Document2_2 list) externals" and p
    using that by (simp add: package_record_fields packageFiles_FileOwner)
  have id: "FileSPDXIdentifier (File2_2_literal ''/usr/bin/curl'' ''/usr/bin/curl'') =
      ''/usr/bin/curl''"
    by (simp add: File2_2_literal_def)
  from pk id fl [of libcurl example_externals]
       fl [of "libcurl\<lparr>Name := ''libcurl4''\<rparr>" example_externals]
  show ?thesis by (simp add: libcurl_def)
qed

text \<open>
  C10, amended. Package records and file records are kept in maps keyed by their
  identifiers, so each map has at most one record for an identifier: the document has at
  most one package record for an identifier, and each package record has at most one file
  record for an identifier, while a path owned by two packages has a file record in each
  of them. The map of package records holds, for each identifier, the record of the last
  package enumerated with it: of two packages with the same identifier the later one
  replaces the earlier one, and the map has at most as many records as the catalog has
  packages. In the same way a path of the owned files gets one file record, which
  replaces whatever the map held for it, so that a path listed twice is one record.
\<close>

theorem one_record_per_identifier:
  "fst (packages ext pres) i =
     map_option (package_record ext) (find (\<lambda>p. package_id p = i) (rev (catalog pres))) \<and>
   finite (dom (fst (packages ext pres))) \<and>
   card (dom (fst (packages ext pres))) \<le> length (catalog pres) \<and>
   (catalog pres = ps1 @ p # ps2 @ q # ps3 \<and> package_id p = package_id q \<and>
    (\<forall>q'\<in>set ps3. package_id q' \<noteq> package_id q) \<longrightarrow>
      fst (packages ext pres) (package_id p) = Some (package_record ext q)) \<and>
   packageFiles_loop fs files k =
     (if k \<in> set fs then Some (File2_2_literal k k) else files k) \<and>
   (Metadata p' = FileOwner fs \<longrightarrow>
      card (dom (Files (package_record ext p'))) = card (set fs) \<and>
      card (dom (Files (package_record ext p'))) \<le> length fs) \<and>
   (Metadata p' = FileOwner fs \<and> Metadata q' = FileOwner gs \<and> f \<in> set fs \<and> f \<in> set gs \<longrightarrow>
      Files (package_record ext p') f = Some (File2_2_literal f f) \<and>
      Files (package_record ext q') f = Some (File2_2_literal f f))"
proof -
  have b: "finite (dom (fst (packages ext pres)))"
    by (simp add: packages_dom)
  have "card (package_id ` set (catalog pres)) \<le> card (set (catalog pres))"
    by (rule card_image_le) simp
  also have "\<dots> \<le> length (catalog pres)"
    by (rule card_length)
  finally have c: "card (dom (fst (packages ext pres))) \<le> length (catalog pres)"
    by (simp add: packages_dom)
  have d: "fst (packages ext pres) (package_id p) = Some (package_record ext q)"
    if "catalog pres = ps1 @ p # ps2 @ q # ps3" and "package_id p = package_id q"
      and "\<forall>q'\<in>set ps3. package_id q' \<noteq> package_id q"
  proof -
    from that(1) have "catalog pres = (ps1 @ p # ps2) @ q # ps3" by simp
    then have "fst (packages ext pres) (package_id q) = Some (package_record ext q)"
      using that(3) by (rule packages_last_record)
    with that(2) show ?thesis by simp
  qed
  have e: "card (dom (Files (package_record ext p'))) = card (set fs) \<and>
      card (dom (Files (package_record ext p'))) \<le> length fs"
    if "Metadata p' = FileOwner fs"
  proof -
    from that have "dom (Files (package_record ext p')) = set fs"
      by (auto simp: package_record_fields packageFiles_FileOwner dom_def)
    then show ?thesis by (simp add: card_length)
  qed
  have g: "Files (package_record ext p') f = Some (File2_2_literal f f) \<and>
      Files (package_record ext q') f = Some (File2_2_literal f f)"
    if "Metadata p' = FileOwner fs" and "Metadata q' = FileOwner gs"
      and "f \<in> set fs" and "f \<in> set gs"
    using that by (rule file_records_per_package)
  have a: "fst (packages ext pres) i =
     map_option (package_record ext) (find (\<lambda>p. package_id p = i) (rev (catalog pres)))"
    by (rule packages_lookup)
  have l: "packageFiles_loop fs files k =
     (if k \<in> set fs then Some (File2_2_literal k k) else files k)"
    by (rule packageFiles_loop_apply)
  from a b c d e g l show ?thesis
    by blast
qed

theorem one_record_per_identifier_witness:
  "catalog example_presenter = [] @ curl # [openssl, wget, libcurl] @ curl_newer # [] \<and>
   package_id curl = package_id curl_newer \<and>
   fst (packages example_externals example_presenter) (package_id curl) =
     Some (package_record example_externals curl_newer) \<and>
   PackageVersion (package_record example_externals curl_newer) = ''7.70'' \<and>
   PackageVersion (package_record example_externals curl) = ''7.68'' \<and>
   card (dom (fst (packages example_externals example_presenter))) \<le> 5 \<and>
   card (dom (Files (package_record example_externals libcurl))) = 2 \<and>
   Files (package_record example_externals libcurl) ''/usr/bin/curl'' =
     Some (File2_2_literal ''/usr/bin/curl'' ''/usr/bin/curl'') \<and>
   Files (package_record example_externals (libcurl\<lparr>Name := ''libcurl4''\<rparr>)) ''/usr/bin/curl'' =
     Some (File2_2_literal ''/usr/bin/curl'' ''/usr/bin/curl'')"
proof -
  have cat: "catalog example_presenter = [] @ curl # [openssl, wget, libcurl] @ curl_newer # []"
    by (simp add: example_presenter_def)
  have same: "package_id curl = package_id curl_newer"
    by (simp add: example_ids)
  have last: "\<forall>q'\<in>set []. package_id q' \<noteq> package_id curl_newer"
    by simp
  have owner: "Metadata libcurl = FileOwner [''/usr/bin/curl'', ''/etc/curl.conf'', ''/usr/bin/curl'']"
    by (simp add: libcurl_def)
  have owner': "Metadata (libcurl\<lparr>Name := ''libcurl4''\<rparr>) =
      FileOwner [''/usr/bin/curl'', ''/etc/curl.conf'', ''/usr/bin/curl'']"
    by (simp add: libcurl_def)
  have owned: "''/usr/bin/curl'' \<in> set [''/usr/bin/curl'', ''/etc/curl.conf'', ''/usr/bin/curl'']"
    by simp
  have versions: "PackageVersion (package_record example_externals curl_newer) = ''7.70''"
    "PackageVersion (package_record example_externals curl) = ''7.68''"
    by (simp_all add: package_record_def Package2_2_literal_def curl_def curl_newer_def
          split: prod.splits)
  have len: "length (catalog example_presenter) = 5"
    by (simp add: example_presenter_def)
  have paths: "card (set [''/usr/bin/curl'', ''/etc/curl.conf'', ''/usr/bin/curl'']) = 2"
    by (simp add: insert_commute)
  from one_record_per_identifier
         [of example_externals example_presenter "package_id curl" "[]" curl
             "[openssl, wget, libcurl]" curl_newer "[]"
             "[''/usr/bin/curl'', ''/etc/curl.conf'', ''/usr/bin/curl'']" Map.empty "''/usr/bin/curl''"
             libcurl "libcurl\<lparr>Name := ''libcurl4''\<rparr>"
             "[''/usr/bin/curl'', ''/etc/curl.conf'', ''/usr/bin/curl'']" "''/usr/bin/curl''"]
       cat same last owner owner' owned
  have a: "fst (packages example_externals example_presenter) (package_id curl) =
       Some (package_record example_externals curl_newer) \<and>
     card (dom (fst (packages example_externals example_presenter))) \<le>
       length (catalog example_presenter) \<and>
     card (dom (Files (package_record example_externals libcurl))) =
       card (set [''/usr/bin/curl'', ''/etc/curl.conf'', ''/usr/bin/curl'']) \<and>
     Files (package_record example_externals libcurl) ''/usr/bin/curl'' =
       Some (File2_2_literal ''/usr/bin/curl'' ''/usr/bin/curl'') \<and>
     Files (package_record example_externals (libcurl\<lparr>Name := ''libcurl4''\<rparr>)) ''/usr/bin/curl'' =
       Some (File2_2_literal ''/usr/bin/curl'' ''/usr/bin/curl'')"
    by blast
  from a cat same versions len paths show ?thesis by simp
qed

end
